theory Spec2Isabelle
  imports Complex_Main "HOL-Library.Multiset"
begin

section \<open>Data model (agvCollider/agvPose.go, collision.go, kdNode.go)\<close>

text \<open>
  The Go package works on \<^verbatim>\<open>float64\<close>. Here a \<^verbatim>\<open>float64\<close> is an exact real number:
  rounding, overflow to infinity, NaN and the sign of zero are not represented, and
  \<^verbatim>\<open>math.MaxFloat64\<close> is the real number it denotes. Division by zero, which gives an
  infinity or NaN in Go, has no counterpart here; no statement below depends on the
  value of a quotient whose divisor is zero. The concrete inputs of the closed theorems
  are chosen so that the Go code takes the same branches and returns the same values on
  them in binary floating point: what is returned or decides a tight comparison is exact
  there, and what is not exact (a square root, the tolerance 0.1, the margin
  \<^verbatim>\<open>1e-6\<close>) only enters comparisons with room to spare.

  A pointer \<^verbatim>\<open>*AGV\<close> is represented by the vehicle record it points to: the exact
  detection path (\<^verbatim>\<open>DetectCollisionsWithKDTree\<close>, \<^verbatim>\<open>DetectAndSchedule\<close>) never writes through
  these pointers. The two methods that do mutate their receiver,
  \<^verbatim>\<open>GenerateSubPath\<close> and \<^verbatim>\<open>PredictPosition\<close>, return the updated vehicle next to
  their result.
\<close>

record Pose =
  X :: real
  Y :: real
  T :: real

record Point =
  X :: real
  Y :: real

record Segment =
  Start :: Point
  End :: Point

record AGV =
  Id :: int
  Width :: real
  Pose :: Pose
  Speed :: real
  Path :: "Point list"
  SubPath :: "Point list"
  InitDone :: bool

record Collision =
  Point :: Point
  PathADist :: real
  PathBDist :: real
  TimeA :: real
  TimeB :: real
  TimeDiff :: real

record CollisionEvent =
  AGV1 :: AGV
  AGV2 :: AGV
  Point :: Point
  Time1 :: real
  Time2 :: real
  DeltaT :: real

record ScheduleAction =
  AGV :: AGV
  Action :: string
  WaitTime :: real
  Collision :: CollisionEvent

text \<open>The zero values \<^verbatim>\<open>Point{}\<close> and \<^verbatim>\<open>Collision{}\<close>.\<close>

definition zeroPoint :: Point where
  "zeroPoint = \<lparr>Point.X = 0, Point.Y = 0\<rparr>"


definition MaxFloat64 :: real where
  "MaxFloat64 = (2 - 1 / 2 ^ 52) * 2 ^ 1023"

section \<open>Geometry kernel (agvPose.go)\<close>

text \<open>\<^verbatim>\<open>math.Hypot\<close> and \<^verbatim>\<open>math.Atan2\<close> on finite arguments.\<close>

definition Hypot :: "real \<Rightarrow> real \<Rightarrow> real" where
  "Hypot p q = sqrt (p * p + q * q)"

definition Atan2 :: "real \<Rightarrow> real \<Rightarrow> real" where
  "Atan2 y x =
     (if 0 < x then arctan (y / x)
      else if x < 0 then (if 0 \<le> y then arctan (y / x) + pi else arctan (y / x) - pi)
      else if 0 < y then pi / 2
      else if y < 0 then - (pi / 2)
      else 0)"

definition getDistance :: "Point \<Rightarrow> Point \<Rightarrow> real" where
  "getDistance p1 p2 = Hypot (Point.X p2 - Point.X p1) (Point.Y p2 - Point.Y p1)"

definition dot :: "real \<Rightarrow> real \<Rightarrow> real \<Rightarrow> real \<Rightarrow> real" where
  "dot ax ay bx by = ax * bx + ay * by"

definition cross :: "real \<Rightarrow> real \<Rightarrow> real \<Rightarrow> real \<Rightarrow> real" where
  "cross ax ay bx by = ax * by - ay * bx"

definition interpolate :: "Point \<Rightarrow> Point \<Rightarrow> real \<Rightarrow> Point" where
  "interpolate p1 p2 ratio =
     \<lparr>Point.X = Point.X p1 + (Point.X p2 - Point.X p1) * ratio,
      Point.Y = Point.Y p1 + (Point.Y p2 - Point.Y p1) * ratio\<rparr>"

text \<open>The two successive clamps \<^verbatim>\<open>if t < 0 { t = 0 }; if t > 1 { t = 1 }\<close>.\<close>

definition clamp01 :: "real \<Rightarrow> real" where
  "clamp01 t = (let t1 = (if t < 0 then 0 else t) in if 1 < t1 then 1 else t1)"

definition projectPointOnSegment :: "Pose \<Rightarrow> Segment \<Rightarrow> Point \<times> real" where
  "projectPointOnSegment pose seg =
     (let vx = Point.X (End seg) - Point.X (Start seg);
          vy = Point.Y (End seg) - Point.Y (Start seg);
          wx = Pose.X pose - Point.X (Start seg);
          wy = Pose.Y pose - Point.Y (Start seg);
          segLen2 = vx * vx + vy * vy
      in if segLen2 = 0 then (Start seg, 0)
         else let t = clamp01 (dot wx wy vx vy / segLen2)
              in (\<lparr>Point.X = Point.X (Start seg) + t * vx,
                   Point.Y = Point.Y (Start seg) + t * vy\<rparr>, t))"

section \<open>Vehicle state and path tracker (agvPose.go)\<close>

text \<open>
  The loop of \<open>GenerateSubPath\<close> over the segments of \<^verbatim>\<open>basePath\<close>: the list is the part
  of the path from index \<open>i\<close> on, and the state is \<^verbatim>\<open>(minDist, segIdx, proj)\<close>.
\<close>

fun GenerateSubPath_loop ::
  "Pose \<Rightarrow> Point list \<Rightarrow> nat \<Rightarrow> real \<times> nat \<times> Point \<Rightarrow> real \<times> nat \<times> Point" where
  "GenerateSubPath_loop pose (a # b # rest) i (minDist, segIdx, proj) =
     (let seg = \<lparr>Start = a, End = b\<rparr>;
          p = fst (projectPointOnSegment pose seg);
          d = getDistance \<lparr>Point.X = Pose.X pose, Point.Y = Pose.Y pose\<rparr> p
      in GenerateSubPath_loop pose (b # rest) (i + 1)
           (if d < minDist then (d, i, p) else (minDist, segIdx, proj)))"
| "GenerateSubPath_loop pose _ i st = st"

text \<open>
  \<open>GenerateSubPath\<close> returns the sub-path and the vehicle with its updated
  \<^verbatim>\<open>InitDone\<close> and \<^verbatim>\<open>SubPath\<close>. The new path is the projection followed by
  \<^verbatim>\<open>basePath[segIdx+1:]\<close>.
\<close>

definition GenerateSubPath :: "AGV \<Rightarrow> Point list \<times> AGV" where
  "GenerateSubPath agv =
     (let fromPath = (\<not> InitDone agv \<or> length (SubPath agv) < 2);
          basePath = (if fromPath then Path agv else SubPath agv);
          agv1 = (if fromPath then agv\<lparr>InitDone := True\<rparr> else agv);
          n = length basePath
      in if n < 2 then (basePath, agv1)
         else
           (case GenerateSubPath_loop (Pose agv) basePath 0 (MaxFloat64, 0, zeroPoint) of
              (minDist, segIdx, proj) \<Rightarrow>
                (let newPath = [proj] @ drop (segIdx + 1) basePath
                 in (newPath, agv1\<lparr>SubPath := newPath\<rparr>))))"

text \<open>The tables \<^verbatim>\<open>segmentLengths\<close> and \<^verbatim>\<open>cumulativeLengths\<close> of \<open>PredictPosition\<close>.\<close>

fun segmentLengths :: "Point list \<Rightarrow> real list" where
  "segmentLengths (a # b # rest) = getDistance a b # segmentLengths (b # rest)"
| "segmentLengths _ = []"

fun cumulativeFrom :: "real \<Rightarrow> real list \<Rightarrow> real list" where
  "cumulativeFrom c [] = [c]"
| "cumulativeFrom c (l # ls) = c # cumulativeFrom (c + l) ls"

definition cumulativeLengths :: "Point list \<Rightarrow> real list" where
  "cumulativeLengths newPath = cumulativeFrom 0 (segmentLengths newPath)"

text \<open>
  Step 4 of \<open>PredictPosition\<close>: the list holds \<^verbatim>\<open>cumulativeLengths[i:]\<close>; the result is
  \<^verbatim>\<open>segIdx\<close>, which stays \<open>0\<close> when the loop ends without a \<^verbatim>\<open>break\<close>.
\<close>

fun findSegment :: "real \<Rightarrow> real list \<Rightarrow> nat \<Rightarrow> nat" where
  "findSegment targetS [] i = 0"
| "findSegment targetS (c # cs) i = (if targetS \<le> c then i - 1 else findSegment targetS cs (i + 1))"

text \<open>\<open>PredictPosition\<close> returns the pose and the vehicle as the call leaves it.\<close>

definition PredictPosition :: "AGV \<Rightarrow> real \<Rightarrow> Pose \<times> AGV" where
  "PredictPosition agv dt =
     (case GenerateSubPath agv of
        (newPath, agv1) \<Rightarrow>
          (let n = length newPath
           in if n < 2 then (Pose agv1, agv1)
              else
                (let segLens = segmentLengths newPath;
                     cumulative = cumulativeLengths newPath;
                     targetS = Speed agv1 * dt;
                     totalLen = cumulative ! (n - 1)
                 in if targetS \<ge> totalLen then
                      (let lastP = newPath ! (n - 1);
                           dx = Point.X (newPath ! (n - 1)) - Point.X (newPath ! (n - 2));
                           dy = Point.Y (newPath ! (n - 1)) - Point.Y (newPath ! (n - 2));
                           theta = Atan2 dy dx;
                           pose = \<lparr>Pose.X = Point.X lastP, Pose.Y = Point.Y lastP, T = theta\<rparr>
                       in (pose, agv1\<lparr>Pose := pose\<rparr>))
                    else
                      (let segIdx = findSegment targetS (tl cumulative) 1;
                           segStart = newPath ! segIdx;
                           segEnd = newPath ! (segIdx + 1);
                           segLen = segLens ! segIdx;
                           distOnSeg = targetS - cumulative ! segIdx;
                           ratio = distOnSeg / segLen;
                           p = interpolate segStart segEnd ratio;
                           theta = Atan2 (Point.Y segEnd - Point.Y segStart)
                                         (Point.X segEnd - Point.X segStart);
                           pose = \<lparr>Pose.X = Point.X p, Pose.Y = Point.Y p, T = theta\<rparr>
                       in (pose, agv1\<lparr>Pose := pose\<rparr>)))))"

section \<open>Segment primitives (segment.go)\<close>

definition segmentIntersect :: "Segment \<Rightarrow> Segment \<Rightarrow> real \<Rightarrow> bool \<times> Point" where
  "segmentIntersect s1 s2 width =
     (let dx1 = Point.X (End s1) - Point.X (Start s1);
          dy1 = Point.Y (End s1) - Point.Y (Start s1);
          dx2 = Point.X (End s2) - Point.X (Start s2);
          dy2 = Point.Y (End s2) - Point.Y (Start s2);
          denom = cross dx1 dy1 dx2 dy2
      in if denom = 0 then
           (if cross (Point.X (Start s2) - Point.X (Start s1))
                     (Point.Y (Start s2) - Point.Y (Start s1)) dx1 dy1 = 0 then
              (if dx1 \<noteq> 0 then
                 (let minA = min (Point.X (Start s1)) (Point.X (End s1));
                      maxA = max (Point.X (Start s1)) (Point.X (End s1));
                      minB = min (Point.X (Start s2)) (Point.X (End s2));
                      maxB = max (Point.X (Start s2)) (Point.X (End s2))
                  in if max minA minB \<le> min maxA maxB + width / 2 then
                       (let overlapStart = max minA minB;
                            overlapEnd = min maxA maxB
                        in (True, \<lparr>Point.X = (overlapStart + overlapEnd) / 2,
                                   Point.Y = Point.Y (Start s1)\<rparr>))
                     else (False, zeroPoint))
               else
                 (let minA = min (Point.Y (Start s1)) (Point.Y (End s1));
                      maxA = max (Point.Y (Start s1)) (Point.Y (End s1));
                      minB = min (Point.Y (Start s2)) (Point.Y (End s2));
                      maxB = max (Point.Y (Start s2)) (Point.Y (End s2))
                  in if max minA minB \<le> min maxA maxB + width / 2 then
                       (let overlapStart = max minA minB;
                            overlapEnd = min maxA maxB
                        in (True, \<lparr>Point.X = Point.X (Start s1),
                                   Point.Y = (overlapStart + overlapEnd) / 2\<rparr>))
                     else (False, zeroPoint)))
            else (False, zeroPoint))
         else
           (let t = cross (Point.X (Start s2) - Point.X (Start s1))
                          (Point.Y (Start s2) - Point.Y (Start s1)) dx2 dy2 / denom;
                u = cross (Point.X (Start s2) - Point.X (Start s1))
                          (Point.Y (Start s2) - Point.Y (Start s1)) dx1 dy1 / denom
            in if 0 \<le> t \<and> t \<le> 1 \<and> 0 \<le> u \<and> u \<le> 1 then
                 (True, \<lparr>Point.X = Point.X (Start s1) + t * dx1,
                         Point.Y = Point.Y (Start s1) + t * dy1\<rparr>)
               else (False, zeroPoint)))"

definition closestPointOnSegment :: "Point \<Rightarrow> Segment \<Rightarrow> Point" where
  "closestPointOnSegment p seg =
     (let apx = Point.X p - Point.X (Start seg);
          apy = Point.Y p - Point.Y (Start seg);
          abx = Point.X (End seg) - Point.X (Start seg);
          aby = Point.Y (End seg) - Point.Y (Start seg);
          ab2 = abx * abx + aby * aby
      in if ab2 = 0 then Start seg
         else let t = clamp01 ((apx * abx + apy * aby) / ab2)
              in \<lparr>Point.X = Point.X (Start seg) + abx * t,
                  Point.Y = Point.Y (Start seg) + aby * t\<rparr>)"

text \<open>
  The loop of \<^verbatim>\<open>segmentDistance\<close> over its four candidates; the state is
  \<^verbatim>\<open>(minD, best)\<close>.
\<close>

fun segmentDistance_loop :: "Segment \<Rightarrow> Segment \<Rightarrow> Point list \<Rightarrow> real \<times> Point \<Rightarrow> real \<times> Point" where
  "segmentDistance_loop s1 s2 [] st = st"
| "segmentDistance_loop s1 s2 (c # cs) (minD, best) =
     (let d = min (min (getDistance (Start s1) c) (getDistance (End s1) c))
                  (min (getDistance (Start s2) c) (getDistance (End s2) c))
      in segmentDistance_loop s1 s2 cs (if d < minD then (d, c) else (minD, best)))"

definition segmentDistance :: "Segment \<Rightarrow> Segment \<Rightarrow> real \<times> Point" where
  "segmentDistance s1 s2 =
     (let candidates =
            [closestPointOnSegment (Start s1) s2,
             closestPointOnSegment (End s1) s2,
             closestPointOnSegment (Start s2) s1,
             closestPointOnSegment (End s2) s1]
      in segmentDistance_loop s1 s2 candidates (MaxFloat64, zeroPoint))"

section \<open>Path intersection and path distance (path.go)\<close>

text \<open>
  The inner loop of \<^verbatim>\<open>checkPathIntersection\<close> over the segments of \<^verbatim>\<open>pathB\<close>, for one
  segment \<open>s1\<close> of \<^verbatim>\<open>pathA\<close>; \<open>a0\<close> is \<^verbatim>\<open>pathA[0]\<close> and the state is
  \<^verbatim>\<open>(minDist, nearest, found)\<close>.
\<close>

fun checkPathIntersection_inner ::
  "Point \<Rightarrow> Segment \<Rightarrow> Point list \<Rightarrow> real \<Rightarrow> real \<times> Point \<times> bool \<Rightarrow> real \<times> Point \<times> bool" where
  "checkPathIntersection_inner a0 s1 (b1 # b2 # rest) width (minDist, nearest, found) =
     (let s2 = \<lparr>Start = b1, End = b2\<rparr>;
          st =
            (case segmentIntersect s1 s2 width of
               (True, hit) \<Rightarrow>
                 (let d = getDistance a0 hit
                  in if d < minDist then (d, hit, True) else (minDist, nearest, True))
             | (False, _) \<Rightarrow>
                 (case segmentDistance s1 s2 of
                    (d, p) \<Rightarrow>
                      if d \<le> width / 2 then
                        (if d < minDist then (d, p, True) else (minDist, nearest, True))
                      else (minDist, nearest, found)))
      in checkPathIntersection_inner a0 s1 (b2 # rest) width st)"
| "checkPathIntersection_inner a0 s1 _ width st = st"

fun checkPathIntersection_outer ::
  "Point \<Rightarrow> Point list \<Rightarrow> Point list \<Rightarrow> real \<Rightarrow> real \<times> Point \<times> bool \<Rightarrow> real \<times> Point \<times> bool" where
  "checkPathIntersection_outer a0 (a1 # a2 # rest) pathB width st =
     checkPathIntersection_outer a0 (a2 # rest) pathB width
       (checkPathIntersection_inner a0 \<lparr>Start = a1, End = a2\<rparr> pathB width st)"
| "checkPathIntersection_outer a0 _ pathB width st = st"

text \<open>\<^verbatim>\<open>pathA[0]\<close> is read only inside the loops, which do not run on an empty path.\<close>

definition checkPathIntersection :: "Point list \<Rightarrow> Point list \<Rightarrow> real \<Rightarrow> bool \<times> Point" where
  "checkPathIntersection pathA pathB width =
     (case pathA of
        [] \<Rightarrow> (False, zeroPoint)
      | a0 # _ \<Rightarrow>
          (case checkPathIntersection_outer a0 pathA pathB width (MaxFloat64, zeroPoint, False) of
             (minDist, nearest, found) \<Rightarrow> (found, nearest)))"




section \<open>Exact collision detector (collision.go)\<close>







section \<open>Conflict resolver (agvPose.go, second part)\<close>

definition ResolveCollision :: "CollisionEvent \<Rightarrow> real \<Rightarrow> ScheduleAction \<times> ScheduleAction" where
  "ResolveCollision e safeGap =
     (if Time1 e \<le> Time2 e then
        (\<lparr>AGV = AGV1 e, Action = ''GO'', WaitTime = 0, Collision = e\<rparr>,
         \<lparr>AGV = AGV2 e, Action = ''WAIT'', WaitTime = (Time1 e + safeGap) - Time2 e,
          Collision = e\<rparr>)
      else
        (\<lparr>AGV = AGV2 e, Action = ''GO'', WaitTime = 0, Collision = e\<rparr>,
         \<lparr>AGV = AGV1 e, Action = ''WAIT'', WaitTime = (Time2 e + safeGap) - Time1 e,
          Collision = e\<rparr>))"

section \<open>Spatial index (kdNode.go)\<close>

text \<open>A \<^verbatim>\<open>*KDNode\<close>: \<open>KDNil\<close> is the nil pointer; the fields are \<^verbatim>\<open>AGV\<close>, \<^verbatim>\<open>Left\<close>,
  \<^verbatim>\<open>Right\<close> and \<^verbatim>\<open>Depth\<close>. The depth starts at 0 and only grows, so it is a natural
  number.\<close>

datatype KDNode = KDNil | KDNode AGV KDNode KDNode nat

text \<open>The comparison function handed to \<^verbatim>\<open>sort.Slice\<close>, on the two vehicles compared.\<close>

definition lessAxis :: "nat \<Rightarrow> AGV \<Rightarrow> AGV \<Rightarrow> bool" where
  "lessAxis axis a b =
     (if axis = 0 then Pose.X (Pose a) < Pose.X (Pose b) else Pose.Y (Pose a) < Pose.Y (Pose b))"

definition axisKey :: "nat \<Rightarrow> AGV \<Rightarrow> real" where
  "axisKey axis a = (if axis = 0 then Pose.X (Pose a) else Pose.Y (Pose a))"

definition sortedBy :: "nat \<Rightarrow> AGV list \<Rightarrow> bool" where
  "sortedBy axis s = sorted_wrt (\<lambda>a b. \<not> lessAxis axis b a) s"

text \<open>
  \<^verbatim>\<open>sort.Slice\<close> is not stable: it leaves the slice as some permutation of itself in
  which no later element is less than an earlier one, and which permutation that is
  among vehicles with equal coordinates is not specified. The parameter \<open>order\<close> proposes
  the outcome; \<open>sortSlice\<close> takes the proposal whenever it is such a permutation, and
  the stable insertion sort otherwise. Every admissible behaviour of \<^verbatim>\<open>sort.Slice\<close> is
  \<open>sortSlice order\<close> for some \<open>order\<close>, and statements below hold for every \<open>order\<close>.
\<close>

definition sortSlice :: "(nat \<Rightarrow> AGV list \<Rightarrow> AGV list) \<Rightarrow> nat \<Rightarrow> AGV list \<Rightarrow> AGV list" where
  "sortSlice order axis agvs =
     (let s = order axis agvs
      in if mset s = mset agvs \<and> sortedBy axis s then s else sort_key (axisKey axis) agvs)"

text \<open>
  \<open>buildKDTree\<close> returns the tree together with the final contents of the slice it was
  given: the sort is in place, and the two recursive calls work on the sub-slices
  \<^verbatim>\<open>agvs[:median]\<close> and \<^verbatim>\<open>agvs[median+1:]\<close> of the same backing array.
\<close>

function buildKDTree :: "(nat \<Rightarrow> AGV list \<Rightarrow> AGV list) \<Rightarrow> AGV list \<Rightarrow> nat \<Rightarrow> KDNode \<times> AGV list" where
  "buildKDTree order agvs depth =
     (if length agvs = 0 then (KDNil, agvs)
      else
        (let axis = depth mod 2;
             sortedAgvs = sortSlice order axis agvs;
             median = length agvs div 2;
             l = buildKDTree order (take median sortedAgvs) (depth + 1);
             r = buildKDTree order (drop (median + 1) sortedAgvs) (depth + 1)
         in (KDNode (sortedAgvs ! median) (fst l) (fst r) depth,
             snd l @ [sortedAgvs ! median] @ snd r)))"
  by pat_completeness auto
termination
proof (relation "measure (\<lambda>(order, agvs, depth). length agvs)")
  show "wf (measure (\<lambda>(order, agvs, depth). length agvs))" by simp
next
  fix order :: "nat \<Rightarrow> AGV list \<Rightarrow> AGV list" and agvs :: "AGV list" and depth axis :: nat
    and sortedAgvs :: "AGV list" and median :: nat
  assume "length agvs \<noteq> 0" "median = length agvs div 2"
  then have "median < length agvs"
    by simp
  then show "((order, take median sortedAgvs, depth + 1), (order, agvs, depth))
               \<in> measure (\<lambda>(order, agvs, depth). length agvs)"
    by (simp add: min_less_iff_disj)
next
  fix order :: "nat \<Rightarrow> AGV list \<Rightarrow> AGV list" and agvs :: "AGV list" and depth axis :: nat
    and sortedAgvs :: "AGV list" and median :: nat and l :: "KDNode \<times> AGV list"
  assume ne: "length agvs \<noteq> 0" and s: "sortedAgvs = sortSlice order axis agvs"
  have "mset sortedAgvs = mset agvs"
    unfolding s sortSlice_def Let_def by simp
  then have "length sortedAgvs = length agvs"
    by (rule mset_eq_length)
  with ne show "((order, drop (median + 1) sortedAgvs, depth + 1), (order, agvs, depth))
               \<in> measure (\<lambda>(order, agvs, depth). length agvs)"
    by simp
qed

declare buildKDTree.simps [simp del]

definition distance :: "AGV \<Rightarrow> AGV \<Rightarrow> real" where
  "distance a b = Hypot (Pose.X (Pose a) - Pose.X (Pose b)) (Pose.Y (Pose a) - Pose.Y (Pose b))"

text \<open>\<open>rangeSearch\<close> appends to \<^verbatim>\<open>*results\<close>; the slice is passed in and returned.\<close>

fun rangeSearch :: "KDNode \<Rightarrow> AGV \<Rightarrow> real \<Rightarrow> AGV list \<Rightarrow> AGV list" where
  "rangeSearch KDNil target r results = results"
| "rangeSearch (KDNode agv left right depth) target r results =
     (let results1 =
            (if Id agv \<noteq> Id target \<and> distance agv target \<le> r then results @ [agv]
             else results);
          axis = depth mod 2;
          diff = (if axis = 0 then Pose.X (Pose target) - Pose.X (Pose agv)
                  else Pose.Y (Pose target) - Pose.Y (Pose agv))
      in if diff \<le> 0 then
           (let results2 = rangeSearch left target r results1
            in if \<bar>diff\<bar> \<le> r then rangeSearch right target r results2 else results2)
         else
           (let results2 = rangeSearch right target r results1
            in if \<bar>diff\<bar> \<le> r then rangeSearch left target r results2 else results2))"

section \<open>Fleet orchestrator (collision.go, agvPose.go)\<close>








section \<open>Notions used to state the properties\<close>

text \<open>
  The distance of two segments in the words of the specification, for comparison with
  \<open>segmentDistance\<close>: the minimum, over the four end points, of the distance from the end
  point to its clamped projection on the other segment.
\<close>

definition segmentDistance_spec :: "Segment \<Rightarrow> Segment \<Rightarrow> real" where
  "segmentDistance_spec s1 s2 =
     min (min (getDistance (Start s1) (closestPointOnSegment (Start s1) s2))
              (getDistance (End s1) (closestPointOnSegment (End s1) s2)))
         (min (getDistance (Start s2) (closestPointOnSegment (Start s2) s1))
              (getDistance (End s2) (closestPointOnSegment (End s2) s1)))"



text \<open>
  The vehicles stored in a tree, and the ordering of every node against its two
  subtrees on the node's split axis, which \<open>rangeSearch\<close> relies on when it prunes.
\<close>

fun treeVehicles :: "KDNode \<Rightarrow> AGV multiset" where
  "treeVehicles KDNil = {#}"
| "treeVehicles (KDNode agv left right depth) = add_mset agv (treeVehicles left + treeVehicles right)"

fun splitOrdered :: "KDNode \<Rightarrow> bool" where
  "splitOrdered KDNil = True"
| "splitOrdered (KDNode agv left right depth) =
     ((\<forall>v\<in>#treeVehicles left. axisKey (depth mod 2) v \<le> axisKey (depth mod 2) agv) \<and>
      (\<forall>v\<in>#treeVehicles right. axisKey (depth mod 2) agv \<le> axisKey (depth mod 2) v) \<and>
      splitOrdered left \<and> splitOrdered right)"

text \<open>The test \<open>rangeSearch\<close> applies to the vehicle of a node.\<close>

definition inRange :: "AGV \<Rightarrow> real \<Rightarrow> AGV \<Rightarrow> bool" where
  "inRange target r v = (Id v \<noteq> Id target \<and> distance v target \<le> r)"

text \<open>The length of a path: the sum of the lengths of its segments.\<close>

definition pathLength :: "Point list \<Rightarrow> real" where
  "pathLength path = (\<Sum>i<length path - 1. getDistance (path ! i) (path ! (i + 1)))"

section \<open>Concrete inputs used in closed statements\<close>

definition pt :: "real \<Rightarrow> real \<Rightarrow> Point" where
  "pt x y = \<lparr>Point.X = x, Point.Y = y\<rparr>"

text \<open>A vehicle with id \<open>i\<close> at \<open>(x,y)\<close>, of width 1 and speed 1, without a path.\<close>

definition vehicle :: "int \<Rightarrow> real \<Rightarrow> real \<Rightarrow> AGV" where
  "vehicle i x y = \<lparr>Id = i, Width = 1, Pose = \<lparr>Pose.X = x, Pose.Y = y, T = 0\<rparr>, Speed = 1,
     Path = [], SubPath = [], InitDone = False\<rparr>"

text \<open>Three vehicles on the x axis, not in the order of their coordinates.\<close>

definition fleet3 :: "AGV list" where
  "fleet3 = [vehicle 3 9 0, vehicle 1 0 0, vehicle 2 3 0]"

text \<open>An event whose second vehicle arrives 3 s after the first.\<close>

definition lateEvent :: CollisionEvent where
  "lateEvent = \<lparr>AGV1 = vehicle 1 0 0, AGV2 = vehicle 2 9 0, Point = pt 3 0,
     Time1 = 3, Time2 = 6, DeltaT = 3\<rparr>"

text \<open>Two parallel segments 5 apart.\<close>

definition segA :: Segment where
  "segA = \<lparr>Start = pt 0 0, End = pt 10 0\<rparr>"

definition segB :: Segment where
  "segB = \<lparr>Start = pt 0 5, End = pt 10 5\<rparr>"

text \<open>A straight path, and a path that crosses it at \<open>(5,0)\<close> and then runs beside it.\<close>

definition crossingA :: "Point list" where
  "crossingA = [pt 0 0, pt 10 0]"

definition crossingB :: "Point list" where
  "crossingB = [pt 5 (- 1), pt 5 1, pt 9 1]"






text \<open>
  A vehicle whose \<^verbatim>\<open>SubPath\<close> holds two points although \<^verbatim>\<open>InitDone\<close> is false and its
  \<^verbatim>\<open>Path\<close> is empty, and a vehicle as it is constructed from a path alone.
\<close>

definition staleVehicle :: AGV where
  "staleVehicle = \<lparr>Id = 1, Width = 1, Pose = \<lparr>Pose.X = 0, Pose.Y = 0, T = 0\<rparr>, Speed = 1,
     Path = [], SubPath = [pt 0 0, pt 1 0], InitDone = False\<rparr>"

definition freshVehicle :: AGV where
  "freshVehicle = \<lparr>Id = 1, Width = 1, Pose = \<lparr>Pose.X = 0, Pose.Y = 0, T = 0\<rparr>, Speed = 2,
     Path = [pt 0 0, pt 10 0], SubPath = [], InitDone = False\<rparr>"

section \<open>Properties of the geometry kernel\<close>

lemma MaxFloat64_large: "1000 < MaxFloat64"
proof -
  have a: "(2::real) ^ 10 \<le> 2 ^ 1023" by (rule power_increasing) simp_all
  have b: "(1::real) \<le> 2 - 1 / 2 ^ 52" by simp
  have "1 * (2::real) ^ 10 \<le> (2 - 1 / 2 ^ 52) * 2 ^ 1023"
    using b a by (rule mult_mono) simp_all
  then show ?thesis unfolding MaxFloat64_def by simp
qed

lemma Hypot_nonneg: "0 \<le> Hypot p q"
  by (simp add: Hypot_def)

lemma Hypot_zero_right: "Hypot p 0 = \<bar>p\<bar>"
  by (simp add: Hypot_def)

lemma Hypot_zero_left: "Hypot 0 q = \<bar>q\<bar>"
  by (simp add: Hypot_def)

lemma getDistance_nonneg: "0 \<le> getDistance p q"
  by (simp add: getDistance_def Hypot_nonneg)

lemma getDistance_same: "getDistance p p = 0"
  by (simp add: getDistance_def Hypot_def)





section \<open>Properties of the conflict resolver\<close>

text \<open>
  C5. If \<open>Time1 e \<le> Time2 e\<close> then \<open>ResolveCollision\<close> lets vehicle 1 go with wait \<open>0\<close> and
  makes vehicle 2 wait \<open>(Time1 e + safeGap) - Time2 e\<close>; otherwise vehicle 2 goes and vehicle 1
  waits \<open>(Time2 e + safeGap) - Time1 e\<close>. On a tie vehicle 1 goes, and the wait can be
  negative: for \<open>lateEvent\<close> (arrivals at 3 s and 6 s) and a gap of 1 s it is \<open>-2\<close>.
\<close>

theorem ResolveCollision_policy:
  "(Time1 e \<le> Time2 e \<longrightarrow>
      ResolveCollision e safeGap =
        (\<lparr>AGV = AGV1 e, Action = ''GO'', WaitTime = 0, Collision = e\<rparr>,
         \<lparr>AGV = AGV2 e, Action = ''WAIT'', WaitTime = (Time1 e + safeGap) - Time2 e,
          Collision = e\<rparr>)) \<and>
   (\<not> Time1 e \<le> Time2 e \<longrightarrow>
      ResolveCollision e safeGap =
        (\<lparr>AGV = AGV2 e, Action = ''GO'', WaitTime = 0, Collision = e\<rparr>,
         \<lparr>AGV = AGV1 e, Action = ''WAIT'', WaitTime = (Time2 e + safeGap) - Time1 e,
          Collision = e\<rparr>)) \<and>
   (Time1 e = Time2 e \<longrightarrow> AGV (fst (ResolveCollision e safeGap)) = AGV1 e) \<and>
   WaitTime (snd (ResolveCollision lateEvent 1)) < 0"
  by (simp add: ResolveCollision_def lateEvent_def)

theorem ResolveCollision_policy_witness:
  "ResolveCollision lateEvent 1 =
     (\<lparr>AGV = vehicle 1 0 0, Action = ''GO'', WaitTime = 0, Collision = lateEvent\<rparr>,
      \<lparr>AGV = vehicle 2 9 0, Action = ''WAIT'', WaitTime = - 2, Collision = lateEvent\<rparr>) \<and>
   ResolveCollision (lateEvent\<lparr>Time1 := 6, Time2 := 3\<rparr>) 1 =
     (\<lparr>AGV = vehicle 2 9 0, Action = ''GO'', WaitTime = 0,
        Collision = lateEvent\<lparr>Time1 := 6, Time2 := 3\<rparr>\<rparr>,
      \<lparr>AGV = vehicle 1 0 0, Action = ''WAIT'', WaitTime = - 2,
        Collision = lateEvent\<lparr>Time1 := 6, Time2 := 3\<rparr>\<rparr>) \<and>
   AGV (fst (ResolveCollision (lateEvent\<lparr>Time2 := 3\<rparr>) 1)) = vehicle 1 0 0"
  using ResolveCollision_policy [of lateEvent 1]
        ResolveCollision_policy [of "lateEvent\<lparr>Time1 := 6, Time2 := 3\<rparr>" 1]
        ResolveCollision_policy [of "lateEvent\<lparr>Time2 := 3\<rparr>" 1]
  by (simp add: lateEvent_def)

section \<open>Segment distance\<close>

text \<open>
  For a candidate \<open>c\<close>, the loop of \<open>segmentDistance\<close> takes the least distance from \<open>c\<close> to
  the four end points of both segments. A candidate that is itself an end point
  therefore scores \<open>0\<close>.
\<close>

lemma endpointMin_zero:
  assumes "c = Start s1 \<or> c = End s1 \<or> c = Start s2 \<or> c = End s2"
  shows "min (min (getDistance (Start s1) c) (getDistance (End s1) c))
             (min (getDistance (Start s2) c) (getDistance (End s2) c)) = 0"
proof -
  have nn: "0 \<le> getDistance (Start s1) c" "0 \<le> getDistance (End s1) c"
    "0 \<le> getDistance (Start s2) c" "0 \<le> getDistance (End s2) c"
    by (rule getDistance_nonneg)+
  from assms have "getDistance (Start s1) c = 0 \<or> getDistance (End s1) c = 0 \<or>
     getDistance (Start s2) c = 0 \<or> getDistance (End s2) c = 0"
    using getDistance_same by auto
  with nn show ?thesis by (auto simp: min_def)
qed

lemma endpointMin_nonneg:
  "\<not> min (min (getDistance (Start s1) c) (getDistance (End s1) c))
         (min (getDistance (Start s2) c) (getDistance (End s2) c)) < 0"
  by (simp add: not_less getDistance_nonneg)

lemma closestPoint_segA_segB:
  "closestPointOnSegment (Start segA) segB = Start segB"
  "closestPointOnSegment (End segA) segB = End segB"
  "closestPointOnSegment (Start segB) segA = Start segA"
  "closestPointOnSegment (End segB) segA = End segA"
  by (simp_all add: closestPointOnSegment_def segA_def segB_def pt_def clamp01_def)

text \<open>
  C2 (the code at a failing input). \<open>segA\<close> runs from \<open>(0,0)\<close> to \<open>(10,0)\<close> and \<open>segB\<close>
  from \<open>(0,5)\<close> to \<open>(10,5)\<close>: two parallel segments 5 apart. The minimum over the four
  end-point-to-projection distances, which the specification describes, is \<open>5\<close>;
  \<open>segmentDistance\<close> returns distance \<open>0\<close> with contact point \<open>(0,5)\<close>, because it scores
  the candidate \<open>(0,5)\<close> by its distance to the nearest of all four end points, and
  \<open>(0,5)\<close> is an end point of \<open>segB\<close>.
\<close>

theorem segmentDistance_parallel_five_apart:
  "segmentDistance segA segB = (0, pt 0 5) \<and> segmentDistance_spec segA segB = 5"
proof -
  have "segmentDistance segA segB = (0, Start segB)"
    using MaxFloat64_large
    by (simp add: segmentDistance_def closestPoint_segA_segB endpointMin_zero Let_def)
  then have code: "segmentDistance segA segB = (0, pt 0 5)"
    by (simp add: segB_def)
  have spec: "segmentDistance_spec segA segB = 5"
    by (simp add: segmentDistance_spec_def closestPoint_segA_segB)
       (simp add: segA_def segB_def pt_def getDistance_def Hypot_zero_left)
  show ?thesis using code spec by blast
qed

section \<open>Path intersection\<close>

lemma crossing_first_pair:
  "segmentIntersect \<lparr>Start = pt 0 0, End = pt 10 0\<rparr> \<lparr>Start = pt 5 (- 1), End = pt 5 1\<rparr> 2
     = (True, pt 5 0)"
  by (simp add: segmentIntersect_def cross_def pt_def Let_def)

lemma crossing_second_pair:
  "segmentIntersect \<lparr>Start = pt 0 0, End = pt 10 0\<rparr> \<lparr>Start = pt 5 1, End = pt 9 1\<rparr> 2
     = (False, zeroPoint)"
  by (simp add: segmentIntersect_def cross_def pt_def Let_def)

lemma crossing_closest:
  "closestPointOnSegment (pt 0 0) \<lparr>Start = pt 5 1, End = pt 9 1\<rparr> = pt 5 1"
  "closestPointOnSegment (pt 10 0) \<lparr>Start = pt 5 1, End = pt 9 1\<rparr> = pt 9 1"
  "closestPointOnSegment (pt 5 1) \<lparr>Start = pt 0 0, End = pt 10 0\<rparr> = pt 5 0"
  "closestPointOnSegment (pt 9 1) \<lparr>Start = pt 0 0, End = pt 10 0\<rparr> = pt 9 0"
  by (simp_all add: closestPointOnSegment_def pt_def clamp01_def)

lemma crossing_near_miss:
  "segmentDistance \<lparr>Start = pt 0 0, End = pt 10 0\<rparr> \<lparr>Start = pt 5 1, End = pt 9 1\<rparr> = (0, pt 5 1)"
proof -
  let ?s1 = "\<lparr>Start = pt 0 0, End = pt 10 0\<rparr>" and ?s2 = "\<lparr>Start = pt 5 1, End = pt 9 1\<rparr>"
  have d1: "min (min (getDistance (Start ?s1) (pt 5 1)) (getDistance (End ?s1) (pt 5 1)))
             (min (getDistance (Start ?s2) (pt 5 1)) (getDistance (End ?s2) (pt 5 1))) = 0"
    by (rule endpointMin_zero) simp
  show ?thesis
    using MaxFloat64_large d1 endpointMin_nonneg [of ?s1 _ ?s2]
    by (simp add: segmentDistance_def crossing_closest Let_def)
qed

text \<open>
  C7 (the code at a failing input). \<open>crossingA\<close> is the single segment from \<open>(0,0)\<close> to
  \<open>(10,0)\<close>; \<open>crossingB\<close> goes \<open>(5,-1)\<close>, \<open>(5,1)\<close>, \<open>(9,1)\<close>; the width is 2. The first pair
  of segments intersects at \<open>(5,0)\<close>, at distance 5 from \<open>pathA[0]\<close>; the second pair is
  a near miss with contact point \<open>(5,1)\<close>, further away from \<open>pathA[0]\<close>. The near-miss
  branch compares the gap between the segments, not the distance of the contact point
  from \<open>pathA[0]\<close>, with \<open>minDist\<close>, so \<open>checkPathIntersection\<close> returns \<open>(5,1)\<close>.
\<close>

theorem checkPathIntersection_returns_farther_candidate:
  "checkPathIntersection crossingA crossingB 2 = (True, pt 5 1) \<and>
   segmentIntersect \<lparr>Start = pt 0 0, End = pt 10 0\<rparr> \<lparr>Start = pt 5 (- 1), End = pt 5 1\<rparr> 2
     = (True, pt 5 0) \<and>
   getDistance (pt 0 0) (pt 5 0) < getDistance (pt 0 0) (pt 5 1)"
proof -
  have code: "checkPathIntersection crossingA crossingB 2 = (True, pt 5 1)"
    using MaxFloat64_large
    by (simp add: checkPathIntersection_def crossingA_def crossingB_def crossing_first_pair
          crossing_second_pair crossing_near_miss Let_def)
       (simp add: getDistance_def pt_def Hypot_zero_right)
  have nearer: "getDistance (pt 0 0) (pt 5 0) < getDistance (pt 0 0) (pt 5 1)"
    by (simp add: getDistance_def pt_def Hypot_def real_less_rsqrt)
  show ?thesis using code crossing_first_pair nearer by blast
qed

section \<open>Exact collision detector\<close>

lemma MaxFloat64_pos: "0 < MaxFloat64"
  using MaxFloat64_large by simp










section \<open>Correctness of the spatial index\<close>

lemma lessAxis_key: "lessAxis axis a b \<longleftrightarrow> axisKey axis a < axisKey axis b"
  by (simp add: lessAxis_def axisKey_def)

lemma sortedBy_key: "sortedBy axis s \<longleftrightarrow> sorted (map (axisKey axis) s)"
  by (simp add: sortedBy_def lessAxis_key not_less sorted_map)

lemma sortSlice_mset: "mset (sortSlice order axis agvs) = mset agvs"
  by (simp add: sortSlice_def Let_def)

lemma sortSlice_sorted: "sorted (map (axisKey axis) (sortSlice order axis agvs))"
  by (simp add: sortSlice_def Let_def sortedBy_key)

lemma sortSlice_length: "length (sortSlice order axis agvs) = length agvs"
  using sortSlice_mset by (rule mset_eq_length)

lemma sorted_split_at:
  assumes "sorted (map f s)" "m < length s"
  shows "\<forall>v\<in>set (take m s). f v \<le> f (s ! m)" and "\<forall>v\<in>set (drop (Suc m) s). f (s ! m) \<le> f v"
proof -
  have s: "s = take m s @ (s ! m) # drop (Suc m) s"
    using assms(2) by (simp add: id_take_nth_drop)
  have "sorted (map f (take m s @ (s ! m) # drop (Suc m) s))"
    using assms(1) s by simp
  then show "\<forall>v\<in>set (take m s). f v \<le> f (s ! m)" and "\<forall>v\<in>set (drop (Suc m) s). f (s ! m) \<le> f v"
    by (auto simp: sorted_append)
qed

lemma buildKDTree_invariants:
  "treeVehicles (fst (buildKDTree order agvs depth)) = mset agvs \<and>
   mset (snd (buildKDTree order agvs depth)) = mset agvs \<and>
   splitOrdered (fst (buildKDTree order agvs depth))"
proof (induction order agvs depth rule: buildKDTree.induct)
  case (1 order agvs depth)
  show ?case
  proof (cases "length agvs = 0")
    case True
    then show ?thesis by (simp add: buildKDTree.simps)
  next
    case False
    define s where "s = sortSlice order (depth mod 2) agvs"
    define m where "m = length agvs div 2"
    define l where "l = buildKDTree order (take m s) (depth + 1)"
    define r where "r = buildKDTree order (drop (m + 1) s) (depth + 1)"
    have res: "buildKDTree order agvs depth = (KDNode (s ! m) (fst l) (fst r) depth, snd l @ [s ! m] @ snd r)"
      using False by (subst buildKDTree.simps) (simp add: Let_def s_def m_def l_def r_def)
    have ihl: "treeVehicles (fst l) = mset (take m s) \<and> mset (snd l) = mset (take m s) \<and> splitOrdered (fst l)"
      unfolding l_def using "1.IH"(1) [OF False refl s_def m_def] .
    have ihr: "treeVehicles (fst r) = mset (drop (m + 1) s) \<and> mset (snd r) = mset (drop (m + 1) s) \<and> splitOrdered (fst r)"
      unfolding r_def using "1.IH"(2) [OF False refl s_def m_def l_def] .
    have len: "length s = length agvs" by (simp add: s_def sortSlice_length)
    have m: "m < length s" using False len by (simp add: m_def)
    have split: "s = take m s @ (s ! m) # drop (Suc m) s"
      using m by (simp add: id_take_nth_drop)
    have "mset s = mset (take m s) + {#s ! m#} + mset (drop (Suc m) s)"
      by (subst split) simp
    then have parts: "add_mset (s ! m) (mset (take m s) + mset (drop (m + 1) s)) = mset agvs"
      by (simp add: s_def sortSlice_mset)
    have srt: "sorted (map (axisKey (depth mod 2)) s)"
      by (simp add: s_def sortSlice_sorted)
    show ?thesis
      using ihl ihr parts sorted_split_at [OF srt m]
      by (simp add: res)
  qed
qed

lemma axis_le_distance: "\<bar>axisKey axis v - axisKey axis target\<bar> \<le> distance v target"
proof -
  have x: "\<bar>a\<bar> \<le> sqrt (a * a + b * b)" for a b :: real
    by (rule real_le_rsqrt) (simp add: power2_eq_square)
  have y: "\<bar>b\<bar> \<le> sqrt (a * a + b * b)" for a b :: real
    by (rule real_le_rsqrt) (simp add: power2_eq_square)
  show ?thesis
    using x y by (simp add: axisKey_def distance_def Hypot_def)
qed

lemma pruned_right:
  assumes "\<forall>v\<in>#vs. axisKey axis agv \<le> axisKey axis v"
    and "axisKey axis target - axisKey axis agv \<le> 0"
    and "\<not> \<bar>axisKey axis target - axisKey axis agv\<bar> \<le> r"
  shows "filter_mset (inRange target r) vs = {#}"
proof -
  have "\<not> inRange target r v" if "v \<in># vs" for v
  proof -
    have "axisKey axis agv \<le> axisKey axis v" using assms(1) that by blast
    then have "r < \<bar>axisKey axis v - axisKey axis target\<bar>" using assms(2,3) by simp
    then have "r < distance v target" using axis_le_distance [of axis v target] by simp
    then show ?thesis by (simp add: inRange_def)
  qed
  then show ?thesis by simp
qed

lemma pruned_left:
  assumes "\<forall>v\<in>#vs. axisKey axis v \<le> axisKey axis agv"
    and "\<not> axisKey axis target - axisKey axis agv \<le> 0"
    and "\<not> \<bar>axisKey axis target - axisKey axis agv\<bar> \<le> r"
  shows "filter_mset (inRange target r) vs = {#}"
proof -
  have "\<not> inRange target r v" if "v \<in># vs" for v
  proof -
    have "axisKey axis v \<le> axisKey axis agv" using assms(1) that by blast
    then have "r < \<bar>axisKey axis v - axisKey axis target\<bar>" using assms(2,3) by simp
    then have "r < distance v target" using axis_le_distance [of axis v target] by simp
    then show ?thesis by (simp add: inRange_def)
  qed
  then show ?thesis by simp
qed

lemma rangeSearch_mset:
  "splitOrdered t \<Longrightarrow>
   mset (rangeSearch t target r results) = mset results + filter_mset (inRange target r) (treeVehicles t)"
proof (induction t arbitrary: results)
  case KDNil
  then show ?case by simp
next
  case (KDNode agv left right depth)
  let ?axis = "depth mod 2"
  let ?diff = "axisKey ?axis target - axisKey ?axis agv"
  let ?results1 = "if Id agv \<noteq> Id target \<and> distance agv target \<le> r then results @ [agv] else results"
  have diff: "(if ?axis = 0 then Pose.X (Pose target) - Pose.X (Pose agv)
               else Pose.Y (Pose target) - Pose.Y (Pose agv)) = ?diff"
    by (simp add: axisKey_def)
  have ord: "\<forall>v\<in>#treeVehicles left. axisKey ?axis v \<le> axisKey ?axis agv"
    "\<forall>v\<in>#treeVehicles right. axisKey ?axis agv \<le> axisKey ?axis v"
    "splitOrdered left" "splitOrdered right"
    using KDNode.prems by simp_all
  have l: "mset (rangeSearch left target r rs) = mset rs + filter_mset (inRange target r) (treeVehicles left)" for rs
    using KDNode.IH(1) ord(3) by blast
  have r: "mset (rangeSearch right target r rs) = mset rs + filter_mset (inRange target r) (treeVehicles right)" for rs
    using KDNode.IH(2) ord(4) by blast
  have here: "mset ?results1 = mset results + filter_mset (inRange target r) {#agv#}"
    by (simp add: inRange_def)
  have unfold: "rangeSearch (KDNode agv left right depth) target r results =
      (if ?diff \<le> 0 then
         (if \<bar>?diff\<bar> \<le> r then rangeSearch right target r (rangeSearch left target r ?results1)
          else rangeSearch left target r ?results1)
       else
         (if \<bar>?diff\<bar> \<le> r then rangeSearch left target r (rangeSearch right target r ?results1)
          else rangeSearch right target r ?results1))"
    by (simp only: rangeSearch.simps Let_def diff)
  show ?case
  proof (cases "?diff \<le> 0")
    case True
    show ?thesis
    proof (cases "\<bar>?diff\<bar> \<le> r")
      case both: True
      show ?thesis using True both by (subst unfold) (simp add: l r here)
    next
      case False
      have "filter_mset (inRange target r) (treeVehicles right) = {#}"
        using pruned_right [OF ord(2) True False] .
      then show ?thesis using True False by (subst unfold) (simp add: l here)
    qed
  next
    case False
    show ?thesis
    proof (cases "\<bar>?diff\<bar> \<le> r")
      case both: True
      show ?thesis using False both by (subst unfold) (simp add: l r here)
    next
      case far: False
      have "filter_mset (inRange target r) (treeVehicles left) = {#}"
        using pruned_left [OF ord(1) False far] .
      then show ?thesis using False far by (subst unfold) (simp add: r here)
    qed
  qed
qed

lemma rangeSearch_appends:
  "rangeSearch t target r results = results @ rangeSearch t target r []"
proof (induction t arbitrary: results)
  case KDNil
  then show ?case by simp
next
  case (KDNode agv left right depth)
  define fromLeft where "fromLeft = rangeSearch left target r []"
  define fromRight where "fromRight = rangeSearch right target r []"
  define here where "here = (if Id agv \<noteq> Id target \<and> distance agv target \<le> r then [agv] else [])"
  let ?diff = "if depth mod 2 = 0 then Pose.X (Pose target) - Pose.X (Pose agv)
               else Pose.Y (Pose target) - Pose.Y (Pose agv)"
  have l: "rangeSearch left target r rs = rs @ fromLeft" for rs
    unfolding fromLeft_def by (rule KDNode.IH(1))
  have r: "rangeSearch right target r rs = rs @ fromRight" for rs
    unfolding fromRight_def by (rule KDNode.IH(2))
  have h: "(if Id agv \<noteq> Id target \<and> distance agv target \<le> r then rs @ [agv] else rs) = rs @ here" for rs
    by (simp add: here_def)
  define near where "near \<longleftrightarrow> ?diff \<le> 0"
  define both where "both \<longleftrightarrow> \<bar>?diff\<bar> \<le> r"
  have node: "rangeSearch (KDNode agv left right depth) target r rs =
      (if near then
         (if both then rs @ here @ fromLeft @ fromRight else rs @ here @ fromLeft)
       else
         (if both then rs @ here @ fromRight @ fromLeft else rs @ here @ fromRight))" for rs
    unfolding near_def both_def
    by (simp only: rangeSearch.simps Let_def h l r append_assoc)
  show ?case
    unfolding node by (cases near; cases both) simp_all
qed

text \<open>
  C3. For a fleet with pairwise distinct ids, a target of the fleet and a radius \<open>r \<ge> 0\<close>:
  the search in the tree built from the fleet leaves what \<^verbatim>\<open>*results\<close> held in place and
  appends each vehicle at most once; the vehicles it appends are exactly the vehicles of
  the fleet whose id differs from the target's (equivalently, that are not the target)
  and whose \<open>distance\<close> to the target is at most \<open>r\<close>; the target itself is not
  appended. This holds whichever sorted permutation \<^verbatim>\<open>sort.Slice\<close> produces.
\<close>

theorem rangeSearch_exhaustive:
  assumes "distinct (map Id agvs)" and "target \<in> set agvs" and "0 \<le> r"
  shows "rangeSearch (fst (buildKDTree order agvs 0)) target r results =
           results @ rangeSearch (fst (buildKDTree order agvs 0)) target r [] \<and>
         distinct (rangeSearch (fst (buildKDTree order agvs 0)) target r []) \<and>
         set (rangeSearch (fst (buildKDTree order agvs 0)) target r []) =
           {v \<in> set agvs. Id v \<noteq> Id target \<and> distance v target \<le> r} \<and>
         set (rangeSearch (fst (buildKDTree order agvs 0)) target r []) =
           {v \<in> set agvs. v \<noteq> target \<and> distance v target \<le> r} \<and>
         target \<notin> set (rangeSearch (fst (buildKDTree order agvs 0)) target r [])"
proof -
  let ?res = "rangeSearch (fst (buildKDTree order agvs 0)) target r []"
  have m: "mset ?res = filter_mset (inRange target r) (mset agvs)"
    using rangeSearch_mset [of "fst (buildKDTree order agvs 0)" target r "[]"]
      buildKDTree_invariants [of order agvs 0] by simp
  have d: "distinct agvs" using assms(1) by (simp add: distinct_map)
  have "mset ?res = mset (filter (inRange target r) agvs)" using m by simp
  then have dis: "distinct ?res" and st: "set ?res = set (filter (inRange target r) agvs)"
    using d by (metis distinct_filter mset_eq_imp_distinct_iff, metis mset_eq_setD)
  have ids: "Id v \<noteq> Id target \<longleftrightarrow> v \<noteq> target" if "v \<in> set agvs" for v
    using assms(1,2) that by (auto simp: distinct_map inj_on_def)
  have app: "rangeSearch (fst (buildKDTree order agvs 0)) target r results = results @ ?res"
    by (rule rangeSearch_appends)
  show ?thesis
    using app dis st ids by (auto simp: inRange_def)
qed

theorem rangeSearch_exhaustive_witness:
  "set (rangeSearch (fst (buildKDTree (\<lambda>axis agvs. agvs) fleet3 0)) (vehicle 1 0 0) 5 []) = {vehicle 2 3 0} \<and>
   distinct (rangeSearch (fst (buildKDTree (\<lambda>axis agvs. agvs) fleet3 0)) (vehicle 1 0 0) 5 [])"
proof -
  have ids: "distinct (map Id fleet3)" by (simp add: fleet3_def vehicle_def)
  have mem: "vehicle 1 0 0 \<in> set fleet3" by (simp add: fleet3_def)
  have r: "(0::real) \<le> 5" by simp
  have "{v \<in> set fleet3. Id v \<noteq> Id (vehicle 1 0 0) \<and> distance v (vehicle 1 0 0) \<le> 5} = {vehicle 2 3 0}"
    by (auto simp: fleet3_def vehicle_def distance_def Hypot_zero_right)
  then show ?thesis
    using rangeSearch_exhaustive [OF ids mem r, where order = "\<lambda>axis agvs. agvs" and results = "[]"]
    by simp
qed

section \<open>Slices of one and two vehicles\<close>


lemma sortSlice_nil: "sortSlice order axis [] = []"
  using sortSlice_mset [of order axis "[]"] by simp







section \<open>The fleet scheduling example\<close>








section \<open>Vehicle state and path tracker\<close>

lemma GenerateSubPath_loop_index:
  "fst (snd (GenerateSubPath_loop pose path i st)) = fst (snd st) \<or>
   (i \<le> fst (snd (GenerateSubPath_loop pose path i st)) \<and>
    fst (snd (GenerateSubPath_loop pose path i st)) + 2 \<le> i + length path)"
proof (induction pose path i st rule: GenerateSubPath_loop.induct)
  case (1 pose a b rest i minDist segIdx proj)
  let ?p = "fst (projectPointOnSegment pose \<lparr>Start = a, End = b\<rparr>)"
  let ?d = "getDistance \<lparr>Point.X = Pose.X pose, Point.Y = Pose.Y pose\<rparr> ?p"
  let ?st = "if ?d < minDist then (?d, i, ?p) else (minDist, segIdx, proj)"
  have step: "GenerateSubPath_loop pose (a # b # rest) i (minDist, segIdx, proj) =
              GenerateSubPath_loop pose (b # rest) (i + 1) ?st"
    by (simp add: Let_def)
  have ih: "fst (snd (GenerateSubPath_loop pose (b # rest) (i + 1) ?st)) = fst (snd ?st) \<or>
     (i + 1 \<le> fst (snd (GenerateSubPath_loop pose (b # rest) (i + 1) ?st)) \<and>
      fst (snd (GenerateSubPath_loop pose (b # rest) (i + 1) ?st)) + 2 \<le> i + 1 + length (b # rest))"
    using "1.IH" [OF refl refl refl] .
  show ?case
    unfolding step using ih by (cases "?d < minDist") auto
qed simp_all

lemma GenerateSubPath_unfold:
  "GenerateSubPath agv =
     (if \<not> InitDone agv \<or> length (SubPath agv) < 2 then
        (if length (Path agv) < 2 then (Path agv, agv\<lparr>InitDone := True\<rparr>)
         else
           (let k = fst (snd (GenerateSubPath_loop (Pose agv) (Path agv) 0 (MaxFloat64, 0, zeroPoint)));
                q = snd (snd (GenerateSubPath_loop (Pose agv) (Path agv) 0 (MaxFloat64, 0, zeroPoint)));
                newPath = q # drop (k + 1) (Path agv)
            in (newPath, agv\<lparr>InitDone := True, SubPath := newPath\<rparr>)))
      else
        (let k = fst (snd (GenerateSubPath_loop (Pose agv) (SubPath agv) 0 (MaxFloat64, 0, zeroPoint)));
             q = snd (snd (GenerateSubPath_loop (Pose agv) (SubPath agv) 0 (MaxFloat64, 0, zeroPoint)));
             newPath = q # drop (k + 1) (SubPath agv)
         in (newPath, agv\<lparr>SubPath := newPath\<rparr>)))"
  by (auto simp: GenerateSubPath_def Let_def split: prod.splits)

lemma GenerateSubPath_length:
  assumes "2 \<le> length base"
  shows "2 \<le> length (q # drop (fst (snd (GenerateSubPath_loop pose base 0 (m, 0, p))) + 1) base)"
    and "length (q # drop (fst (snd (GenerateSubPath_loop pose base 0 (m, 0, p))) + 1) base) \<le> length base"
  using GenerateSubPath_loop_index [of pose base 0 "(m, 0, p)"] assms by auto

text \<open>
  C9 (as the code has it). For a vehicle that is initialised, or whose cached sub-path
  has fewer than 2 points, or whose path has at least 2 points: \<open>GenerateSubPath\<close> leaves
  the pose as it is, and a second call right after the first returns a sub-path with at
  most as many points as the first call returned.
\<close>

theorem GenerateSubPath_twice:
  "(InitDone agv \<or> length (SubPath agv) < 2 \<or> 2 \<le> length (Path agv)) \<longrightarrow>
     Pose (snd (GenerateSubPath agv)) = Pose agv \<and>
     length (fst (GenerateSubPath (snd (GenerateSubPath agv)))) \<le> length (fst (GenerateSubPath agv))"
proof
  assume ok: "InitDone agv \<or> length (SubPath agv) < 2 \<or> 2 \<le> length (Path agv)"
  have pose: "Pose (snd (GenerateSubPath agv)) = Pose agv"
    by (simp add: GenerateSubPath_unfold Let_def)
  have len: "length (fst (GenerateSubPath (snd (GenerateSubPath agv)))) \<le> length (fst (GenerateSubPath agv))"
  proof (cases "\<not> InitDone agv \<or> length (SubPath agv) < 2")
    case fromPath: True
    show ?thesis
    proof (cases "length (Path agv) < 2")
      case True
      then have first: "GenerateSubPath agv = (Path agv, agv\<lparr>InitDone := True\<rparr>)"
        using fromPath by (simp add: GenerateSubPath_unfold)
      have "length (SubPath agv) < 2" using ok fromPath True by auto
      then have "GenerateSubPath (agv\<lparr>InitDone := True\<rparr>) = (Path agv, agv\<lparr>InitDone := True\<rparr>)"
        using True by (simp add: GenerateSubPath_unfold)
      then show ?thesis by (simp add: first)
    next
      case False
      define k where "k = fst (snd (GenerateSubPath_loop (Pose agv) (Path agv) 0 (MaxFloat64, 0, zeroPoint)))"
      define q where "q = snd (snd (GenerateSubPath_loop (Pose agv) (Path agv) 0 (MaxFloat64, 0, zeroPoint)))"
      define newPath where "newPath = q # drop (k + 1) (Path agv)"
      have first: "GenerateSubPath agv = (newPath, agv\<lparr>InitDone := True, SubPath := newPath\<rparr>)"
        using fromPath False by (simp add: GenerateSubPath_unfold Let_def newPath_def k_def q_def)
      have two: "2 \<le> length newPath"
        unfolding newPath_def k_def using GenerateSubPath_length(1) [of "Path agv"] False by simp
      have "length (fst (GenerateSubPath (agv\<lparr>InitDone := True, SubPath := newPath\<rparr>))) \<le> length newPath"
        using two GenerateSubPath_length(2) [OF two]
        by (simp add: GenerateSubPath_unfold Let_def)
      then show ?thesis by (simp add: first)
    qed
  next
    case cached: False
    define k where "k = fst (snd (GenerateSubPath_loop (Pose agv) (SubPath agv) 0 (MaxFloat64, 0, zeroPoint)))"
    define q where "q = snd (snd (GenerateSubPath_loop (Pose agv) (SubPath agv) 0 (MaxFloat64, 0, zeroPoint)))"
    define newPath where "newPath = q # drop (k + 1) (SubPath agv)"
    have first: "GenerateSubPath agv = (newPath, agv\<lparr>SubPath := newPath\<rparr>)"
      using cached by (simp add: GenerateSubPath_unfold Let_def newPath_def k_def q_def)
    have two: "2 \<le> length newPath"
      unfolding newPath_def k_def using GenerateSubPath_length(1) [of "SubPath agv"] cached by simp
    have "length (fst (GenerateSubPath (agv\<lparr>SubPath := newPath\<rparr>))) \<le> length newPath"
      using two cached GenerateSubPath_length(2) [OF two]
      by (simp add: GenerateSubPath_unfold Let_def)
    then show ?thesis by (simp add: first)
  qed
  show "Pose (snd (GenerateSubPath agv)) = Pose agv \<and>
     length (fst (GenerateSubPath (snd (GenerateSubPath agv)))) \<le> length (fst (GenerateSubPath agv))"
    using pose len by blast
qed

lemma project_origin:
  "projectPointOnSegment \<lparr>Pose.X = 0, Pose.Y = 0, T = 0\<rparr> \<lparr>Start = pt 0 0, End = pt L 0\<rparr> = (pt 0 0, 0)"
  by (simp add: projectPointOnSegment_def pt_def dot_def clamp01_def Let_def)

lemma distance_origin: "getDistance \<lparr>Point.X = 0, Point.Y = 0\<rparr> (pt 0 0) = 0"
  by (simp add: getDistance_def pt_def Hypot_def)

lemma GenerateSubPath_fresh:
  "GenerateSubPath freshVehicle =
     ([pt 0 0, pt 10 0], freshVehicle\<lparr>InitDone := True, SubPath := [pt 0 0, pt 10 0]\<rparr>)"
  using MaxFloat64_pos
  by (simp add: GenerateSubPath_unfold freshVehicle_def project_origin Let_def distance_origin)

theorem GenerateSubPath_twice_witness:
  "length (fst (GenerateSubPath (snd (GenerateSubPath freshVehicle)))) \<le> 2"
  using GenerateSubPath_twice [of freshVehicle]
  by (simp add: GenerateSubPath_fresh) (simp add: freshVehicle_def)

text \<open>
  C9 as the specification words it fails for \<open>staleVehicle\<close>: the first call takes the
  empty \<^verbatim>\<open>Path\<close> as basis, returns it (0 points) and sets \<^verbatim>\<open>InitDone\<close>; the second call,
  with the pose unchanged, takes the two cached points as basis and returns 2 points.
\<close>

theorem GenerateSubPath_regrows_counterexample:
  "length (fst (GenerateSubPath staleVehicle)) = 0 \<and>
   Pose (snd (GenerateSubPath staleVehicle)) = Pose staleVehicle \<and>
   length (fst (GenerateSubPath (snd (GenerateSubPath staleVehicle)))) = 2"
proof -
  have first: "GenerateSubPath staleVehicle = ([], staleVehicle\<lparr>InitDone := True\<rparr>)"
    by (simp add: GenerateSubPath_unfold staleVehicle_def)
  have second: "fst (GenerateSubPath (staleVehicle\<lparr>InitDone := True\<rparr>)) = [pt 0 0, pt 1 0]"
    using MaxFloat64_pos
    by (simp add: GenerateSubPath_unfold staleVehicle_def project_origin Let_def distance_origin)
  show ?thesis by (simp add: first second)
qed

lemma segmentLengths_length: "length (segmentLengths path) = length path - 1"
  by (induction path rule: segmentLengths.induct) simp_all

lemma cumulativeFrom_last: "cumulativeFrom c ls ! length ls = c + sum_list ls"
  by (induction ls arbitrary: c) simp_all

lemma segmentLengths_sum: "sum_list (segmentLengths path) = pathLength path"
proof (induction path rule: segmentLengths.induct)
  case (1 a b rest)
  have "pathLength (a # b # rest) =
        (\<Sum>i<Suc (length rest). getDistance ((a # b # rest) ! i) ((a # b # rest) ! (i + 1)))"
    by (simp add: pathLength_def)
  also have "\<dots> = getDistance a b + (\<Sum>i<length rest. getDistance ((b # rest) ! i) ((b # rest) ! (i + 1)))"
    by (subst sum.lessThan_Suc_shift) simp
  also have "\<dots> = getDistance a b + pathLength (b # rest)"
    by (simp add: pathLength_def)
  finally show ?case using 1 by simp
qed (simp_all add: pathLength_def)

lemma cumulativeLengths_total:
  "cumulativeLengths path ! (length path - Suc 0) = pathLength path"
  using cumulativeFrom_last [of 0 "segmentLengths path"]
  by (simp add: cumulativeLengths_def segmentLengths_length segmentLengths_sum)

lemma GenerateSubPath_speed: "Speed (snd (GenerateSubPath agv)) = Speed agv"
  by (simp add: GenerateSubPath_unfold Let_def)

text \<open>
  C6. For a vehicle whose generated sub-path has at least 2 points and \<open>dt \<ge> 0\<close>:
  after \<open>PredictPosition\<close> the vehicle is the one \<open>GenerateSubPath\<close> left, with its pose
  overwritten by the returned pose; and when \<open>Speed * dt\<close> reaches or exceeds the length
  of the sub-path, the returned pose is the last point of the sub-path, with heading
  \<open>Atan2\<close> of the last segment's direction.
\<close>

theorem PredictPosition_commits:
  assumes "2 \<le> length (fst (GenerateSubPath agv))" and "0 \<le> dt"
  shows "snd (PredictPosition agv dt) = (snd (GenerateSubPath agv))\<lparr>Pose := fst (PredictPosition agv dt)\<rparr> \<and>
         Pose (snd (PredictPosition agv dt)) = fst (PredictPosition agv dt) \<and>
         (Speed agv * dt \<ge> pathLength (fst (GenerateSubPath agv)) \<longrightarrow>
            fst (PredictPosition agv dt) =
              \<lparr>Pose.X = Point.X (last (fst (GenerateSubPath agv))),
               Pose.Y = Point.Y (last (fst (GenerateSubPath agv))),
               T = Atan2 (Point.Y (last (fst (GenerateSubPath agv))) -
                          Point.Y (fst (GenerateSubPath agv) ! (length (fst (GenerateSubPath agv)) - 2)))
                         (Point.X (last (fst (GenerateSubPath agv))) -
                          Point.X (fst (GenerateSubPath agv) ! (length (fst (GenerateSubPath agv)) - 2)))\<rparr>)"
proof -
  obtain newPath agv1 where g: "GenerateSubPath agv = (newPath, agv1)"
    by (cases "GenerateSubPath agv") auto
  have n: "2 \<le> length newPath" using assms(1) g by simp
  then have ne: "newPath \<noteq> []" by auto
  have sp: "Speed agv1 = Speed agv" using GenerateSubPath_speed [of agv] g by simp
  have lastP: "newPath ! (length newPath - Suc 0) = last newPath"
    using ne by (simp add: last_conv_nth)
  have commit: "snd (PredictPosition agv dt) = agv1\<lparr>Pose := fst (PredictPosition agv dt)\<rparr>"
    using n by (simp add: PredictPosition_def g Let_def)
  have final: "fst (PredictPosition agv dt) =
      \<lparr>Pose.X = Point.X (last newPath), Pose.Y = Point.Y (last newPath),
       T = Atan2 (Point.Y (last newPath) - Point.Y (newPath ! (length newPath - 2)))
                 (Point.X (last newPath) - Point.X (newPath ! (length newPath - 2)))\<rparr>"
    if "Speed agv * dt \<ge> pathLength newPath"
    using n that by (simp add: PredictPosition_def g Let_def cumulativeLengths_total sp lastP)
  show ?thesis
    using commit final by (simp add: g)
qed

lemma pathLength_fresh: "pathLength [pt 0 0, pt 10 0] = 10"
  by (simp add: pathLength_def getDistance_def pt_def Hypot_zero_right)

theorem PredictPosition_commits_witness:
  "fst (PredictPosition freshVehicle 6) = \<lparr>Pose.X = 10, Pose.Y = 0, T = 0\<rparr> \<and>
   Pose (snd (PredictPosition freshVehicle 6)) = \<lparr>Pose.X = 10, Pose.Y = 0, T = 0\<rparr>"
proof -
  have two: "2 \<le> length (fst (GenerateSubPath freshVehicle))"
    by (simp add: GenerateSubPath_fresh)
  have dt: "(0::real) \<le> 6" by simp
  have far: "Speed freshVehicle * 6 \<ge> pathLength (fst (GenerateSubPath freshVehicle))"
    by (simp add: GenerateSubPath_fresh pathLength_fresh) (simp add: freshVehicle_def)
  show ?thesis
    using PredictPosition_commits [OF two dt] far
    by (simp add: GenerateSubPath_fresh) (simp add: pt_def Atan2_def)
qed

end
